theory Spec2Isabelle
  imports Main
begin

section \<open>Shallow embedding of shield_compatibility (lib/ffmpeg and plugin.py)\<close>

text \<open>
  The file \<^verbatim>\<open>lib/ffmpeg/probe.py\<close> holds two classes. \<^verbatim>\<open>Probe\<close> starts at line 100;
  the body of \<^verbatim>\<open>Probe.file\<close> is lines 183-199 and continues at lines 681-688, and
  \<^verbatim>\<open>Probe.set_probe\<close>, \<^verbatim>\<open>Probe.get_probe\<close> and \<^verbatim>\<open>Probe.get\<close> follow at lines 690-708.
  \<^verbatim>\<open>StreamMapper\<close> is lines 230-680. Tokens of an FFmpeg command line are strings;
  an exception of the source is a value of \<open>error\<close> on the left of a sum.
\<close>

datatype error =
    PyException string
  | IndexError
  | KeyError
  | FFProbeError

type_synonym token = string

subsection \<open>\<^verbatim>\<open>StreamMapper.__build_args\<close> (lines 507-532)\<close>

text \<open>
  The parameter \<^verbatim>\<open>options\<close> is a reference to the list object of the caller
  (\<^verbatim>\<open>self.generic_options\<close>, \<^verbatim>\<open>self.main_options\<close> or \<^verbatim>\<open>self.advanced_options\<close>), and the
  method returns \<^verbatim>\<open>None\<close>: its only result is what it does to that object.
  \<^verbatim>\<open>options += [..]\<close> and \<^verbatim>\<open>options[i] = v\<close> change the object the name is bound to;
  \<^verbatim>\<open>options = [value for value in options if value != arg]\<close> binds the name to a new list
  and leaves the caller's object as it is. The state of one call is therefore the caller's
  object together with what the local name is bound to.
\<close>

datatype binding = Shared | Fresh "token list"

record build_state =
  group :: "token list"
  options :: binding

definition current :: "build_state \<Rightarrow> token list" where
  "current st = (case options st of Shared \<Rightarrow> group st | Fresh l \<Rightarrow> l)"

definition extend_list :: "token list \<Rightarrow> build_state \<Rightarrow> build_state" where
  "extend_list xs st =
     (case options st of
        Shared \<Rightarrow> st\<lparr>group := group st @ xs\<rparr>
      | Fresh l \<Rightarrow> st\<lparr>options := Fresh (l @ xs)\<rparr>)"

definition rebind :: "token list \<Rightarrow> build_state \<Rightarrow> build_state" where
  "rebind l st = st\<lparr>options := Fresh l\<rparr>"

definition setitem :: "nat \<Rightarrow> token \<Rightarrow> build_state \<Rightarrow> error + build_state" where
  "setitem i v st =
     (if i < length (current st) then
        (case options st of
           Shared \<Rightarrow> Inr (st\<lparr>group := (group st)[i := v]\<rparr>)
         | Fresh l \<Rightarrow> Inr (st\<lparr>options := Fresh (l[i := v])\<rparr>))
      else Inl IndexError)"

text \<open>\<^verbatim>\<open>options.index(key)\<close>, used only where \<^verbatim>\<open>key in options\<close> holds.\<close>

fun index_of :: "token \<Rightarrow> token list \<Rightarrow> nat" where
  "index_of k [] = 0"
| "index_of k (x # xs) = (if x = k then 0 else Suc (index_of k xs))"

definition apply_arg :: "token \<Rightarrow> build_state \<Rightarrow> build_state" where
  "apply_arg arg st =
     (if arg \<in> set (current st)
      then extend_list [arg] (rebind (filter (\<lambda>value. value \<noteq> arg) (current st)) st)
      else extend_list [arg] st)"

definition apply_kwarg :: "token \<times> token \<Rightarrow> build_state \<Rightarrow> error + build_state" where
  "apply_kwarg kv st =
     (let key = fst kv; value = snd kv in
      if key \<in> set (current st) then
        (let key_pos = index_of key (current st); val_pos = key_pos + 1 in
         case setitem key_pos key st of
           Inl e \<Rightarrow> Inl e
         | Inr st1 \<Rightarrow> setitem val_pos value st1)
      else Inr (extend_list [key, value] st))"

fun apply_kwargs :: "(token \<times> token) list \<Rightarrow> build_state \<Rightarrow> error + build_state" where
  "apply_kwargs [] st = Inr st"
| "apply_kwargs (kv # kvs) st =
     (case apply_kwarg kv st of Inl e \<Rightarrow> Inl e | Inr st1 \<Rightarrow> apply_kwargs kvs st1)"

text \<open>
  \<open>build_args grp args kwargs\<close> is the caller's list after
  \<^verbatim>\<open>self.__build_args(grp, *args, **kwargs)\<close>; the keyword arguments are the items of the
  \<^verbatim>\<open>kwargs\<close> dictionary in its iteration order.
\<close>

definition build_args ::
  "token list \<Rightarrow> token list \<Rightarrow> (token \<times> token) list \<Rightarrow> error + token list" where
  "build_args grp args kwargs =
     (case apply_kwargs kwargs (fold apply_arg args \<lparr>group = grp, options = Shared\<rparr>) of
        Inl e \<Rightarrow> Inl e
      | Inr st \<Rightarrow> Inr (group st))"

text \<open>What the claim expects of one positional token and of one named pair.\<close>

definition spec_positional :: "token \<Rightarrow> token list \<Rightarrow> token list" where
  "spec_positional arg grp = filter (\<lambda>value. value \<noteq> arg) grp @ [arg]"

definition spec_named :: "token \<times> token \<Rightarrow> token list \<Rightarrow> token list" where
  "spec_named kv grp =
     (if fst kv \<in> set grp then grp[Suc (index_of (fst kv) grp) := snd kv]
      else grp @ [fst kv, snd kv])"

subsection \<open>\<^verbatim>\<open>StreamMapper\<close>: the attributes that the argument list reads\<close>

record mapper =
  input_file :: string
  output_file :: string
  generic_options :: "token list"
  main_options :: "token list"
  advanced_options :: "token list"
  stream_mapping :: "token list"
  stream_encoding :: "token list"

text \<open>\<^verbatim>\<open>set_output_null\<close> (lines 566-575); \<open>os_name\<close> is \<^verbatim>\<open>os.name\<close>.\<close>

definition set_output_null :: "string \<Rightarrow> mapper \<Rightarrow> error + mapper" where
  "set_output_null os_name m =
     (let m1 = m\<lparr>output_file := ''-''\<rparr>;
          m2 = (if os_name = ''nt'' then m1\<lparr>output_file := ''NUL''\<rparr> else m1)
      in case build_args (main_options m2) [] [(''-f'', ''null'')] of
           Inl e \<Rightarrow> Inl e
         | Inr opts \<Rightarrow> Inr (m2\<lparr>main_options := opts\<rparr>))"

text \<open>\<^verbatim>\<open>get_ffmpeg_args\<close> (lines 646-680).\<close>

definition get_ffmpeg_args :: "mapper \<Rightarrow> error + token list" where
  "get_ffmpeg_args m =
     (let args = [];
          args = args @ generic_options m;
          args = args @ main_options m
      in if input_file m = [] then Inl (PyException ''Input file has not been set'')
         else
           (let args = args @ [''-i'', input_file m];
                args = args @ advanced_options m;
                args = args @ stream_mapping m;
                args = args @ stream_encoding m
            in if output_file m = [] then Inl (PyException ''Output file has not been set'')
               else if output_file m = ''-'' then Inr (args @ [output_file m])
               else Inr (args @ [''-y'', output_file m])))"

text \<open>The initial attribute values set by \<^verbatim>\<open>__init__\<close> (lines 257-290).\<close>

definition init_mapper :: mapper where
  "init_mapper =
     \<lparr>input_file = '''', output_file = '''',
      generic_options = [''-hide_banner'', ''-loglevel'', ''info''],
      main_options = [],
      advanced_options = [''-strict'', ''-2'', ''-max_muxing_queue_size'', ''4096''],
      stream_mapping = [], stream_encoding = []\<rparr>"

subsection \<open>Probe data: the values \<^verbatim>\<open>json.loads\<close> returns\<close>

text \<open>
  A dictionary is the list of its items in iteration order, with distinct keys.
  Floating-point numbers are not modelled; like integers, booleans and \<^verbatim>\<open>None\<close> they are
  neither strings nor containers.
\<close>

datatype json =
    JStr string
  | JInt int
  | JBool bool
  | JNull
  | JArr "json list"
  | JObj "(string \<times> json) list"

type_synonym pydict = "(string \<times> json) list"

text \<open>
  \<^verbatim>\<open>str.lower()\<close> on the letters A-Z. The results are only compared with the five
  lower-case ASCII words of \<^verbatim>\<open>stream_type_idents\<close> or searched for an ASCII key, and no
  character outside A-Z lower-cases to a letter of those words.
\<close>

definition lower_char :: "char \<Rightarrow> char" where
  "lower_char c =
     (case map_of (zip ''ABCDEFGHIJKLMNOPQRSTUVWXYZ'' ''abcdefghijklmnopqrstuvwxyz'') c of
        Some d \<Rightarrow> d
      | None \<Rightarrow> c)"

definition lower :: "string \<Rightarrow> string" where
  "lower s = map lower_char s"

text \<open>\<^verbatim>\<open>str(n)\<close> of a non-negative integer, as \<^verbatim>\<open>'{}'.format(n)\<close> prints it.\<close>

definition digit :: "nat \<Rightarrow> char" where
  "digit d = ''0123456789'' ! d"

fun str_nat :: "nat \<Rightarrow> string" where
  "str_nat n = (if n < 10 then [digit n] else str_nat (n div 10) @ [digit (n mod 10)])"

declare str_nat.simps [simp del]

subsection \<open>\<^verbatim>\<open>StreamMapper.__set_stream_mapping\<close> (lines 361-505)\<close>

datatype kind = Video | Audio | Subtitle | Data | Attachment

text \<open>The keys and values of \<^verbatim>\<open>stream_type_idents\<close> (lines 239-245).\<close>

fun kind_name :: "kind \<Rightarrow> string" where
  "kind_name Video = ''video''"
| "kind_name Audio = ''audio''"
| "kind_name Subtitle = ''subtitle''"
| "kind_name Data = ''data''"
| "kind_name Attachment = ''attachment''"

fun ident :: "kind \<Rightarrow> string" where
  "ident Video = ''v''"
| "ident Audio = ''a''"
| "ident Subtitle = ''s''"
| "ident Data = ''d''"
| "ident Attachment = ''t''"

text \<open>
  What \<^verbatim>\<open>custom_stream_mapping\<close> can return: a falsy value (\<^verbatim>\<open>None\<close>, an empty
  dictionary), a truthy value that is not a dictionary, or a non-empty dictionary, of
  which only the entries \<^verbatim>\<open>'stream_mapping'\<close> and \<^verbatim>\<open>'stream_encoding'\<close> are read; each is
  absent, a list of tokens, or something that is not a list.
\<close>

datatype entry = Absent | NotList | TokenList "token list"

datatype mapping = Falsy | NotDict | Dict entry entry

datatype call = TestCall pydict | CustomCall pydict nat

text \<open>
  The two methods a subclass overrides: \<^verbatim>\<open>test_stream_needs_processing(stream_info)\<close> and
  \<^verbatim>\<open>custom_stream_mapping(stream_info, stream_id)\<close>.
\<close>

record hooks =
  test_stream_needs_processing :: "pydict \<Rightarrow> bool"
  custom_stream_mapping :: "pydict \<Rightarrow> nat \<Rightarrow> mapping"

text \<open>
  The attributes one mapping pass writes. \<open>calls\<close> is not an attribute of the source:
  it records, in order, every invocation of the two hooks.
\<close>

record pass =
  mapping_args :: "token list"
  encoding_args :: "token list"
  video_stream_count :: nat
  audio_stream_count :: nat
  subtitle_stream_count :: nat
  data_stream_count :: nat
  attachment_stream_count :: nat
  calls :: "call list"

fun stream_count :: "kind \<Rightarrow> pass \<Rightarrow> nat" where
  "stream_count Video p = video_stream_count p"
| "stream_count Audio p = audio_stream_count p"
| "stream_count Subtitle p = subtitle_stream_count p"
| "stream_count Data p = data_stream_count p"
| "stream_count Attachment p = attachment_stream_count p"

text \<open>\<^verbatim>\<open>self.<kind>_stream_count += 1\<close>\<close>

fun increment :: "kind \<Rightarrow> pass \<Rightarrow> pass" where
  "increment Video p = p\<lparr>video_stream_count := video_stream_count p + 1\<rparr>"
| "increment Audio p = p\<lparr>audio_stream_count := audio_stream_count p + 1\<rparr>"
| "increment Subtitle p = p\<lparr>subtitle_stream_count := subtitle_stream_count p + 1\<rparr>"
| "increment Data p = p\<lparr>data_stream_count := data_stream_count p + 1\<rparr>"
| "increment Attachment p = p\<lparr>attachment_stream_count := attachment_stream_count p + 1\<rparr>"

text \<open>\<^verbatim>\<open>__copy_stream_mapping\<close> (lines 292-304).\<close>

definition copy_stream_mapping :: "string \<Rightarrow> nat \<Rightarrow> pass \<Rightarrow> pass" where
  "copy_stream_mapping codec_type stream_id p =
     p\<lparr>mapping_args := mapping_args p @ [''-map'', ''0:'' @ codec_type @ '':'' @ str_nat stream_id],
       encoding_args := encoding_args p @ [''-c:'' @ codec_type @ '':'' @ str_nat stream_id, ''copy'']\<rparr>"

text \<open>
  \<^verbatim>\<open>__apply_custom_stream_mapping\<close> (lines 306-329); the five checks in the order of
  the source.
\<close>

fun apply_custom_stream_mapping :: "mapping \<Rightarrow> pass \<Rightarrow> error + pass" where
  "apply_custom_stream_mapping Falsy p = Inl (PyException ''must return a dictionary'')"
| "apply_custom_stream_mapping NotDict p = Inl (PyException ''must return a dictionary'')"
| "apply_custom_stream_mapping (Dict Absent se) p =
     Inl (PyException ''must contain stream_mapping key'')"
| "apply_custom_stream_mapping (Dict NotList se) p =
     Inl (PyException ''stream_mapping value must be of type list'')"
| "apply_custom_stream_mapping (Dict (TokenList sm) Absent) p =
     Inl (PyException ''must contain stream_encoding key'')"
| "apply_custom_stream_mapping (Dict (TokenList sm) NotList) p =
     Inl (PyException ''stream_mapping value must be of type list'')"
| "apply_custom_stream_mapping (Dict (TokenList sm) (TokenList se)) p =
     Inr (p\<lparr>mapping_args := mapping_args p @ sm, encoding_args := encoding_args p @ se\<rparr>)"

text \<open>\<^verbatim>\<open>if mapping:\<close>\<close>

fun truthy :: "mapping \<Rightarrow> bool" where
  "truthy Falsy = False"
| "truthy NotDict = True"
| "truthy (Dict sm se) = True"

text \<open>
  The body of one of the five branches of the loop (for video: lines 398-415); the five
  differ only in the kind, its identifier letter and its counter. The first component of
  the state is the local \<^verbatim>\<open>found_streams_to_process\<close>.
\<close>

definition map_stream ::
  "hooks \<Rightarrow> string list \<Rightarrow> kind \<Rightarrow> pydict \<Rightarrow> bool \<times> pass \<Rightarrow> error + bool \<times> pass" where
  "map_stream h processing_stream_type k stream_info fp =
     (let found = fst fp; p = snd fp in
      if kind_name k \<in> set processing_stream_type then
        (let p1 = p\<lparr>calls := calls p @ [TestCall stream_info]\<rparr> in
         if \<not> test_stream_needs_processing h stream_info then
           Inr (found, increment k (copy_stream_mapping (ident k) (stream_count k p1) p1))
         else
           (let mapping = custom_stream_mapping h stream_info (stream_count k p1);
                p2 = p1\<lparr>calls := calls p1 @ [CustomCall stream_info (stream_count k p1)]\<rparr>
            in if truthy mapping then
                 (case apply_custom_stream_mapping mapping p2 of
                    Inl e \<Rightarrow> Inl e
                  | Inr p3 \<Rightarrow> Inr (True, increment k p3))
               else Inr (found, increment k (copy_stream_mapping (ident k) (stream_count k p2) p2))))
      else Inr (found, increment k (copy_stream_mapping (ident k) (stream_count k p) p)))"

text \<open>
  \<^verbatim>\<open>stream_info.get('codec_type', '').lower()\<close>: a value that is not a string has no
  method \<^verbatim>\<open>lower\<close>.
\<close>

definition codec_type_of :: "pydict \<Rightarrow> error + string" where
  "codec_type_of stream_info =
     (case map_of stream_info ''codec_type'' of
        None \<Rightarrow> Inr (lower '''')
      | Some (JStr t) \<Rightarrow> Inr (lower t)
      | Some _ \<Rightarrow> Inl (PyException ''AttributeError''))"

text \<open>The \<^verbatim>\<open>if\<close>/\<^verbatim>\<open>elif\<close> chain of the loop body (lines 392-503).\<close>

definition process_stream ::
  "hooks \<Rightarrow> string list \<Rightarrow> pydict \<Rightarrow> bool \<times> pass \<Rightarrow> error + bool \<times> pass" where
  "process_stream h processing_stream_type stream_info fp =
     (case codec_type_of stream_info of
        Inl e \<Rightarrow> Inl e
      | Inr codec_type \<Rightarrow>
          if codec_type = ''video'' then map_stream h processing_stream_type Video stream_info fp
          else if codec_type = ''audio'' then map_stream h processing_stream_type Audio stream_info fp
          else if codec_type = ''subtitle'' then
            map_stream h processing_stream_type Subtitle stream_info fp
          else if codec_type = ''data'' then map_stream h processing_stream_type Data stream_info fp
          else if codec_type = ''attachment'' then
            map_stream h processing_stream_type Attachment stream_info fp
          else Inr fp)"


text \<open>The assignments of lines 377-388.\<close>

definition reset :: "pass \<Rightarrow> pass" where
  "reset p =
     p\<lparr>mapping_args := [], encoding_args := [],
       video_stream_count := 0, audio_stream_count := 0, subtitle_stream_count := 0,
       data_stream_count := 0, attachment_stream_count := 0\<rparr>"



subsection \<open>\<^verbatim>\<open>ffprobe_cmd\<close> and \<^verbatim>\<open>ffprobe_file\<close> (lines 46-97)\<close>

text \<open>
  What \<^verbatim>\<open>pipe.communicate()\<close> leaves behind: the exit status, and the combined output as
  \<^verbatim>\<open>out.decode("utf-8")\<close> gives it, \<open>None\<close> when decoding raises.
\<close>

record completed =
  decoded :: "string option"
  returncode :: int

text \<open>
  The world outside the program: \<^verbatim>\<open>os.path.exists\<close>, the first component of
  \<^verbatim>\<open>mimetypes.guess_type\<close> (after the overrides of \<^verbatim>\<open>__init__\<close>), the run of a command
  line, and \<^verbatim>\<open>json.loads\<close>, \<open>None\<close> when it raises.
\<close>

record env =
  path_exists :: "string \<Rightarrow> bool"
  guess_type :: "string \<Rightarrow> string option"
  popen :: "string list \<Rightarrow> completed"
  json_loads :: "string \<Rightarrow> json option"

text \<open>\<^verbatim>\<open>needle in haystack\<close> for two strings.\<close>

fun substring :: "string \<Rightarrow> string \<Rightarrow> bool" where
  "substring needle [] = (needle = [])"
| "substring needle (c # cs) =
     (take (length needle) (c # cs) = needle \<or> substring needle cs)"



subsection \<open>\<^verbatim>\<open>Probe\<close> (lines 100-199 and 681-708)\<close>

record probe =
  allowed_mimetypes :: "string list"
  probe_info :: json

text \<open>
  \<^verbatim>\<open>__test_valid_mimetype\<close> (lines 126-150); \<^verbatim>\<open>file_type.split('/')[0]\<close> is the part
  of the type before its first slash.
\<close>

definition test_valid_mimetype :: "env \<Rightarrow> probe \<Rightarrow> string \<Rightarrow> bool" where
  "test_valid_mimetype e pr file_path =
     (case guess_type e file_path of
        None \<Rightarrow> False
      | Some file_type \<Rightarrow>
          (let file_type_category = takeWhile (\<lambda>c. c \<noteq> CHR ''/'') file_type
           in file_type_category \<in> set (allowed_mimetypes pr)))"






subsection \<open>\<^verbatim>\<open>file_has_metadata\<close> (plugin.py, lines 42-85)\<close>

text \<open>
  \<^verbatim>\<open>metadata_value in v\<close> for a string \<^verbatim>\<open>metadata_value\<close>: a substring test on a string,
  membership in a list, key membership in a dictionary, and \<^verbatim>\<open>TypeError\<close> on a number,
  a boolean or \<^verbatim>\<open>None\<close>. \<open>contains\<close> is the test where it is defined.
\<close>

fun iterable :: "json \<Rightarrow> bool" where
  "iterable (JStr s) = True"
| "iterable (JArr xs) = True"
| "iterable (JObj d) = True"
| "iterable (JInt i) = False"
| "iterable (JBool b) = False"
| "iterable JNull = False"

fun contains :: "string \<Rightarrow> json \<Rightarrow> bool" where
  "contains x (JStr s) = substring x s"
| "contains x (JArr xs) = (JStr x \<in> set xs)"
| "contains x (JObj d) = (x \<in> set (map fst d))"
| "contains x (JInt i) = False"
| "contains x (JBool b) = False"
| "contains x JNull = False"

definition py_in :: "string \<Rightarrow> json \<Rightarrow> error + bool" where
  "py_in x v = (if iterable v then Inr (contains x v) else Inl (PyException ''TypeError''))"

text \<open>\<^verbatim>\<open>type(v) is dict\<close>, and the items of a dictionary.\<close>

fun is_dict :: "json \<Rightarrow> bool" where
  "is_dict (JObj d) = True"
| "is_dict (JStr s) = False"
| "is_dict (JInt i) = False"
| "is_dict (JBool b) = False"
| "is_dict JNull = False"
| "is_dict (JArr xs) = False"

fun items_of :: "json \<Rightarrow> pydict" where
  "items_of (JObj d) = d"
| "items_of (JStr s) = []"
| "items_of (JInt i) = []"
| "items_of (JBool b) = []"
| "items_of JNull = []"
| "items_of (JArr xs) = []"

text \<open>
  A list comprehension with a condition that may raise: the elements kept, or the first
  exception.
\<close>

fun filter_err :: "('a \<Rightarrow> error + bool) \<Rightarrow> 'a list \<Rightarrow> error + 'a list" where
  "filter_err P [] = Inr []"
| "filter_err P (x # xs) =
     (case P x of
        Inl e \<Rightarrow> Inl e
      | Inr b \<Rightarrow>
          (case filter_err P xs of
             Inl e \<Rightarrow> Inl e
           | Inr ys \<Rightarrow> Inr (if b then x # ys else ys)))"

text \<open>
  \<^verbatim>\<open>d[k] = v\<close> on a dictionary: an existing key keeps its place and takes the new value, a
  new key goes to the end. \<open>dict_update\<close> is \<^verbatim>\<open>d.update(other)\<close> and what a dictionary
  comprehension does with the pairs it produces.
\<close>

definition dict_set :: "string \<Rightarrow> json \<Rightarrow> pydict \<Rightarrow> pydict" where
  "dict_set k v d =
     (if k \<in> set (map fst d) then map (\<lambda>kv. if fst kv = k then (k, v) else kv) d
      else d @ [(k, v)])"

definition dict_update :: "pydict \<Rightarrow> pydict \<Rightarrow> pydict" where
  "dict_update d other = fold (\<lambda>kv acc. dict_set (fst kv) (snd kv) acc) other d"

text \<open>
  \<^verbatim>\<open>[s for s in probe_streams if "codec_type" in s and s["codec_type"] == t]\<close>
  (lines 50, 59, 66, 73).
\<close>

definition with_codec_type :: "string \<Rightarrow> pydict list \<Rightarrow> pydict list" where
  "with_codec_type t probe_streams =
     filter (\<lambda>s. map_of s ''codec_type'' = Some (JStr t)) probe_streams"

text \<open>The condition of line 51: \<^verbatim>\<open>metadata_key in s and metadata_value in s[metadata_key]\<close>.\<close>

definition direct_match :: "string \<Rightarrow> string \<Rightarrow> pydict \<Rightarrow> error + bool" where
  "direct_match metadata_key metadata_value s =
     (case map_of s metadata_key of
        None \<Rightarrow> Inr False
      | Some v \<Rightarrow> py_in metadata_value v)"

text \<open>
  The condition of lines 56, 62, 69 and 76:
  \<^verbatim>\<open>metadata_key in k.lower() and metadata_value in v\<close>.
\<close>

definition match_kv :: "string \<Rightarrow> string \<Rightarrow> string \<times> json \<Rightarrow> error + bool" where
  "match_kv metadata_key metadata_value kv =
     (if substring metadata_key (lower (fst kv)) then py_in metadata_value (snd kv)
      else Inr False)"

text \<open>Lines 52-55: the entries of the format that are not dictionaries, updated with
  each entry that is one, in order.\<close>

definition flatten_format :: "pydict \<Rightarrow> pydict" where
  "flatten_format probe_format =
     (let probe_format_d = filter (\<lambda>kv. is_dict (snd kv)) probe_format;
          probe_format_kv = filter (\<lambda>kv. \<not> is_dict (snd kv)) probe_format
      in fold (\<lambda>kv acc. dict_update acc (items_of (snd kv))) probe_format_d probe_format_kv)"

text \<open>
  The dictionary comprehension of lines 61, 68 and 75, with the dictionary built so far as
  accumulator: \<^verbatim>\<open>s["tags"]\<close> raises \<^verbatim>\<open>KeyError\<close> where the entry is missing, and a value
  that is not a dictionary has no \<^verbatim>\<open>items\<close>.
\<close>

fun tags_kv :: "pydict list \<Rightarrow> pydict \<Rightarrow> error + pydict" where
  "tags_kv [] acc = Inr acc"
| "tags_kv (s # ss) acc =
     (case map_of s ''tags'' of
        None \<Rightarrow> Inl KeyError
      | Some v \<Rightarrow>
          if is_dict v
          then tags_kv ss (dict_update acc (filter (\<lambda>kv. \<not> is_dict (snd kv)) (items_of v)))
          else Inl (PyException ''AttributeError''))"

text \<open>
  One \<^verbatim>\<open>try\<close> block with its \<^verbatim>\<open>except KeyError\<close> (lines 60-64, 67-71, 74-78); the empty
  list stands for the empty string of the handler, both being falsy.
\<close>

definition scan_tags :: "string \<Rightarrow> string \<Rightarrow> pydict list \<Rightarrow> error + (string \<times> json) list" where
  "scan_tags metadata_key metadata_value streams =
     (case (case tags_kv streams [] of
              Inl e \<Rightarrow> Inl e
            | Inr probe_tags_kv \<Rightarrow> filter_err (match_kv metadata_key metadata_value) probe_tags_kv) of
        Inl KeyError \<Rightarrow> Inr []
      | Inl e \<Rightarrow> Inl e
      | Inr matches \<Rightarrow> Inr matches)"

definition file_has_metadata ::
  "string \<Rightarrow> pydict list \<Rightarrow> pydict \<Rightarrow> string \<Rightarrow> string \<Rightarrow> error + bool" where
  "file_has_metadata path probe_streams probe_format metadata_key metadata_value =
     (let streams = with_codec_type ''video'' probe_streams in
      case filter_err (direct_match metadata_key metadata_value) streams of
        Inl e \<Rightarrow> Inl e
      | Inr file_has_metadata_key \<Rightarrow>
     (case filter_err (match_kv metadata_key metadata_value) (flatten_format probe_format) of
        Inl e \<Rightarrow> Inl e
      | Inr file_has_metadata_key_fmt \<Rightarrow>
     (case scan_tags metadata_key metadata_value (with_codec_type ''attachment'' probe_streams) of
        Inl e \<Rightarrow> Inl e
      | Inr file_has_metadata_key_ast \<Rightarrow>
     (case scan_tags metadata_key metadata_value (with_codec_type ''video'' probe_streams) of
        Inl e \<Rightarrow> Inl e
      | Inr file_has_metadata_key_vst \<Rightarrow>
     (case scan_tags metadata_key metadata_value (with_codec_type ''audio'' probe_streams) of
        Inl e \<Rightarrow> Inl e
      | Inr file_has_metadata_key_aust \<Rightarrow>
          Inr (file_has_metadata_key \<noteq> [] \<or> file_has_metadata_key_fmt \<noteq> [] \<or>
               file_has_metadata_key_ast \<noteq> [] \<or> file_has_metadata_key_vst \<noteq> [] \<or>
               file_has_metadata_key_aust \<noteq> []))))))"

subsection \<open>The matching of \<^verbatim>\<open>file_has_metadata\<close> in the words of the specification\<close>

text \<open>
  A mapping matches when some key has \<^verbatim>\<open>metadata_key\<close> as a substring of its lower-cased
  name and a value that contains \<^verbatim>\<open>metadata_value\<close>.
\<close>

definition spec_matches :: "string \<Rightarrow> string \<Rightarrow> (string \<rightharpoonup> json) \<Rightarrow> bool" where
  "spec_matches metadata_key metadata_value m =
     (\<exists>k v. m k = Some v \<and> substring metadata_key (lower k) \<and> contains metadata_value v)"

text \<open>
  The flattened format mapping: the entries that are not dictionaries, with the entries
  of each nested dictionary merged in.
\<close>

definition spec_flattened :: "pydict \<Rightarrow> (string \<rightharpoonup> json)" where
  "spec_flattened probe_format =
     foldl (\<lambda>m kv. m ++ map_of (items_of (snd kv)))
       (map_of (filter (\<lambda>kv. \<not> is_dict (snd kv)) probe_format))
       (filter (\<lambda>kv. is_dict (snd kv)) probe_format)"

text \<open>The tags of one stream that are not dictionaries, and the merged tag mapping of
  a list of streams, a later stream overriding an earlier one.\<close>

definition tag_map :: "pydict \<Rightarrow> (string \<rightharpoonup> json)" where
  "tag_map s =
     (case map_of s ''tags'' of
        None \<Rightarrow> Map.empty
      | Some v \<Rightarrow> map_of (filter (\<lambda>kv. \<not> is_dict (snd kv)) (items_of v)))"

definition spec_merged_tags :: "pydict list \<Rightarrow> (string \<rightharpoonup> json)" where
  "spec_merged_tags streams = foldl (\<lambda>m s. m ++ tag_map s) Map.empty streams"

text \<open>
  The stream-tag scan of one category: every stream of the category has a \<^verbatim>\<open>tags\<close>
  field, and the merged tag mapping matches.
\<close>

definition spec_tag_scan :: "string \<Rightarrow> string \<Rightarrow> pydict list \<Rightarrow> bool" where
  "spec_tag_scan metadata_key metadata_value streams =
     ((\<forall>s \<in> set streams. map_of s ''tags'' \<noteq> None) \<and>
      spec_matches metadata_key metadata_value (spec_merged_tags streams))"

text \<open>The direct check: the key is a field of a video stream whose value contains the
  value searched for.\<close>

definition spec_direct :: "string \<Rightarrow> string \<Rightarrow> pydict list \<Rightarrow> bool" where
  "spec_direct metadata_key metadata_value streams =
     (\<exists>s \<in> set streams. \<exists>v. map_of s metadata_key = Some v \<and> contains metadata_value v)"

definition spec_file_has_metadata :: "pydict list \<Rightarrow> pydict \<Rightarrow> string \<Rightarrow> string \<Rightarrow> bool" where
  "spec_file_has_metadata probe_streams probe_format metadata_key metadata_value =
     (spec_direct metadata_key metadata_value (with_codec_type ''video'' probe_streams) \<or>
      spec_matches metadata_key metadata_value (spec_flattened probe_format) \<or>
      spec_tag_scan metadata_key metadata_value (with_codec_type ''attachment'' probe_streams) \<or>
      spec_tag_scan metadata_key metadata_value (with_codec_type ''video'' probe_streams) \<or>
      spec_tag_scan metadata_key metadata_value (with_codec_type ''audio'' probe_streams))"

text \<open>
  The shape of probe data: the keys of every dictionary read are distinct, a \<^verbatim>\<open>tags\<close>
  field is a dictionary; and every value under a key that contains \<^verbatim>\<open>metadata_key\<close> is a
  string, a list or a dictionary, so that no test raises \<^verbatim>\<open>TypeError\<close>.
\<close>

definition distinct_keys :: "pydict \<Rightarrow> bool" where
  "distinct_keys d = distinct (map fst d)"

definition wf_format :: "pydict \<Rightarrow> bool" where
  "wf_format probe_format =
     (distinct_keys probe_format \<and> (\<forall>kv \<in> set probe_format. distinct_keys (items_of (snd kv))))"

definition wf_stream :: "pydict \<Rightarrow> bool" where
  "wf_stream s =
     (case map_of s ''tags'' of
        None \<Rightarrow> True
      | Some v \<Rightarrow> is_dict v \<and> distinct_keys (items_of v))"

definition testable :: "string \<Rightarrow> pydict \<Rightarrow> bool" where
  "testable metadata_key d =
     (\<forall>kv \<in> set d. substring metadata_key (lower (fst kv)) \<longrightarrow> iterable (snd kv))"

definition no_type_error :: "string \<Rightarrow> pydict list \<Rightarrow> pydict \<Rightarrow> bool" where
  "no_type_error metadata_key probe_streams probe_format =
     ((\<forall>s \<in> set (with_codec_type ''video'' probe_streams).
         \<forall>v. map_of s metadata_key = Some v \<longrightarrow> iterable v) \<and>
      testable metadata_key probe_format \<and>
      (\<forall>kv \<in> set probe_format. testable metadata_key (items_of (snd kv))) \<and>
      (\<forall>s \<in> set probe_streams. \<forall>v. map_of s ''tags'' = Some v \<longrightarrow>
         testable metadata_key (items_of v)))"

subsection \<open>Notions used to state the properties of the mapping pass\<close>

text \<open>
  The kind under which the loop body handles a stream: the branch of the
  \<^verbatim>\<open>if\<close>/\<^verbatim>\<open>elif\<close> chain that its lower-cased \<^verbatim>\<open>codec_type\<close> selects, if any.
\<close>

definition recognized :: "pydict \<Rightarrow> kind option" where
  "recognized stream_info =
     (case codec_type_of stream_info of
        Inl e \<Rightarrow> None
      | Inr codec_type \<Rightarrow>
          if codec_type = ''video'' then Some Video
          else if codec_type = ''audio'' then Some Audio
          else if codec_type = ''subtitle'' then Some Subtitle
          else if codec_type = ''data'' then Some Data
          else if codec_type = ''attachment'' then Some Attachment
          else None)"






subsection \<open>Concrete inputs\<close>

text \<open>
  A subclass that processes every H.264 stream and maps it to libx265, one whose producer
  leaves out the \<^verbatim>\<open>'stream_encoding'\<close> entry, three streams, and the attributes of a
  fresh \<^verbatim>\<open>StreamMapper\<close>.
\<close>

definition h264_hooks :: hooks where
  "h264_hooks =
     \<lparr>test_stream_needs_processing = (\<lambda>s. map_of s ''codec_name'' = Some (JStr ''h264'')),
      custom_stream_mapping =
        (\<lambda>s n. Dict (TokenList [''-map'', ''0:v:'' @ str_nat n])
                     (TokenList [''-c:v:'' @ str_nat n, ''libx265'']))\<rparr>"


definition video_h264 :: pydict where
  "video_h264 = [(''codec_type'', JStr ''video''), (''codec_name'', JStr ''h264'')]"

definition video_hevc :: pydict where
  "video_hevc = [(''codec_type'', JStr ''Video''), (''codec_name'', JStr ''hevc'')]"

definition audio_aac :: pydict where
  "audio_aac = [(''codec_type'', JStr ''audio''), (''codec_name'', JStr ''aac'')]"

definition fresh_pass :: pass where
  "fresh_pass =
     \<lparr>mapping_args = [], encoding_args = [],
      video_stream_count = 0, audio_stream_count = 0, subtitle_stream_count = 0,
      data_stream_count = 0, attachment_stream_count = 0, calls = []\<rparr>"







text \<open>Three video streams: two with a title tag, and one without a \<^verbatim>\<open>tags\<close> field.\<close>

definition tagged_foo :: pydict where
  "tagged_foo = [(''codec_type'', JStr ''video''), (''tags'', JObj [(''title'', JStr ''foo'')])]"

definition tagged_bar :: pydict where
  "tagged_bar = [(''codec_type'', JStr ''video''), (''tags'', JObj [(''title'', JStr ''bar'')])]"

definition untagged :: pydict where
  "untagged = [(''codec_type'', JStr ''video'')]"

section \<open>Properties\<close>

subsection \<open>Option groups\<close>

text \<open>
  C1. A positional token that is already in the group is to be removed from its old
  position and appended once at the end of the group, visibly to the caller. With the
  default generic options and the positional token \<^verbatim>\<open>-hide_banner\<close>, the caller's group
  is the same after the call: the list without the token is bound to the local name only,
  and the token is appended to that list. The second conjunct is the group the claim
  expects.
\<close>

theorem build_args_present_positional_lost:
  "build_args [''-hide_banner'', ''-loglevel'', ''info''] [''-hide_banner''] [] =
     Inr [''-hide_banner'', ''-loglevel'', ''info'']
   \<and> spec_positional ''-hide_banner'' [''-hide_banner'', ''-loglevel'', ''info''] =
     [''-loglevel'', ''info'', ''-hide_banner'']"
  by (simp add: build_args_def apply_arg_def current_def extend_list_def rebind_def
      spec_positional_def)

subsection \<open>The argument list\<close>

text \<open>
  C2 (as amended). \<^verbatim>\<open>get_ffmpeg_args\<close> fails when the input path is empty, and otherwise
  when the output path is empty; in every other case it returns the generic options, the
  main options, \<^verbatim>\<open>-i\<close> and the input path, the advanced options, the stream mapping, the
  stream encoding, and then the output path alone when it is exactly \<^verbatim>\<open>-\<close>, and \<^verbatim>\<open>-y\<close>
  followed by the output path for every other output path.
\<close>

theorem get_ffmpeg_args_order:
  "get_ffmpeg_args m =
     (if input_file m = [] then Inl (PyException ''Input file has not been set'')
      else if output_file m = [] then Inl (PyException ''Output file has not been set'')
      else Inr (generic_options m @ main_options m @ [''-i'', input_file m] @
                advanced_options m @ stream_mapping m @ stream_encoding m @
                (if output_file m = ''-'' then [output_file m] else [''-y'', output_file m])))"
  by (simp add: get_ffmpeg_args_def)

text \<open>
  C2 as stated fails where \<^verbatim>\<open>os.name\<close> is \<^verbatim>\<open>nt\<close>: \<^verbatim>\<open>set_output_null\<close> makes \<^verbatim>\<open>NUL\<close> the
  output path, and the argument list ends with \<^verbatim>\<open>-y\<close>, \<^verbatim>\<open>NUL\<close>: the discard target is
  not appended bare.
\<close>

theorem get_ffmpeg_args_nt_discard_target:
  "set_output_null ''nt'' (init_mapper\<lparr>input_file := ''/in.mkv''\<rparr>) =
     Inr (init_mapper\<lparr>input_file := ''/in.mkv'', output_file := ''NUL'',
                      main_options := [''-f'', ''null'']\<rparr>)
   \<and> get_ffmpeg_args (init_mapper\<lparr>input_file := ''/in.mkv'', output_file := ''NUL'',
                                   main_options := [''-f'', ''null'']\<rparr>) =
     Inr [''-hide_banner'', ''-loglevel'', ''info'', ''-f'', ''null'', ''-i'', ''/in.mkv'',
          ''-strict'', ''-2'', ''-max_muxing_queue_size'', ''4096'', ''-y'', ''NUL'']"
  by (simp add: set_output_null_def init_mapper_def build_args_def apply_kwarg_def current_def
      extend_list_def get_ffmpeg_args_def)

subsection \<open>The mapping pass\<close>

lemma process_stream_recognized:
  "recognized s = Some k \<Longrightarrow> process_stream h pst s fp = map_stream h pst k s fp"
  by (auto simp: recognized_def process_stream_def split: sum.splits if_splits)



lemma stream_count_copy [simp]:
  "stream_count k (copy_stream_mapping t n p) = stream_count k p"
  by (cases k) (simp_all add: copy_stream_mapping_def)

lemma stream_count_calls [simp]:
  "stream_count k (p\<lparr>calls := c\<rparr>) = stream_count k p"
  by (cases k) simp_all








lemma stream_count_reset [simp]: "stream_count k (reset p) = 0"
  by (cases k) (simp_all add: reset_def)








lemma increment_fields [simp]:
  "mapping_args (increment k p) = mapping_args p"
  "encoding_args (increment k p) = encoding_args p"
  "calls (increment k p) = calls p"
  by (cases k; simp)+



lemma str_nat_small: "str_nat 0 = ''0''" "str_nat (Suc 0) = ''1''"
  by (simp_all add: str_nat.simps digit_def)

lemma recognized_examples:
  "recognized video_h264 = Some Video" "recognized video_hevc = Some Video"
  "recognized audio_aac = Some Audio"
  by (simp_all add: recognized_def codec_type_of_def lower_def lower_char_def
      video_h264_def video_hevc_def audio_aac_def)

lemma h264_hooks_examples:
  "test_stream_needs_processing h264_hooks video_h264"
  "\<not> test_stream_needs_processing h264_hooks video_hevc"
  "\<not> test_stream_needs_processing h264_hooks audio_aac"
  "custom_stream_mapping h264_hooks s n =
     Dict (TokenList [''-map'', ''0:v:'' @ str_nat n]) (TokenList [''-c:v:'' @ str_nat n, ''libx265''])"
  by (simp_all add: h264_hooks_def video_h264_def video_hevc_def audio_aac_def)







text \<open>
  C5. For a stream recognized as kind \<open>k\<close>: if \<open>k\<close> is not in the configured processing
  set, one iteration appends exactly \<^verbatim>\<open>-map\<close>, \<^verbatim>\<open>0:<t>:<n>\<close> to the stream mapping and
  \<^verbatim>\<open>-c:<t>:<n>\<close>, \<^verbatim>\<open>copy\<close> to the stream encoding and calls neither hook; if \<open>k\<close> is
  configured and the predicate is false of the stream, the same tokens are appended and
  the only hook call is that of the predicate, so the producer is not invoked.
\<close>

theorem copy_directive:
  assumes "recognized s = Some k"
  shows "(kind_name k \<notin> set pst \<longrightarrow>
           (\<exists>p'. process_stream h pst s (f, p) = Inr (f, p') \<and>
                 mapping_args p' =
                   mapping_args p @ [''-map'', ''0:'' @ ident k @ '':'' @ str_nat (stream_count k p)] \<and>
                 encoding_args p' =
                   encoding_args p @ [''-c:'' @ ident k @ '':'' @ str_nat (stream_count k p), ''copy''] \<and>
                 calls p' = calls p))
       \<and> (kind_name k \<in> set pst \<and> \<not> test_stream_needs_processing h s \<longrightarrow>
           (\<exists>p'. process_stream h pst s (f, p) = Inr (f, p') \<and>
                 mapping_args p' =
                   mapping_args p @ [''-map'', ''0:'' @ ident k @ '':'' @ str_nat (stream_count k p)] \<and>
                 encoding_args p' =
                   encoding_args p @ [''-c:'' @ ident k @ '':'' @ str_nat (stream_count k p), ''copy''] \<and>
                 calls p' = calls p @ [TestCall s]))"
  using assms
  by (cases k)
    (simp_all add: process_stream_recognized map_stream_def Let_def copy_stream_mapping_def)

theorem copy_directive_witness:
  "recognized audio_aac = Some Audio \<and> kind_name Audio \<notin> set [''video''] \<and>
   (\<exists>p'. process_stream h264_hooks [''video''] audio_aac (False, fresh_pass) = Inr (False, p') \<and>
         mapping_args p' = [''-map'', ''0:a:0''] \<and> encoding_args p' = [''-c:a:0'', ''copy''] \<and>
         calls p' = []) \<and>
   recognized video_hevc = Some Video \<and> kind_name Video \<in> set [''video''] \<and>
   \<not> test_stream_needs_processing h264_hooks video_hevc \<and>
   (\<exists>p'. process_stream h264_hooks [''video''] video_hevc (False, fresh_pass) = Inr (False, p') \<and>
         mapping_args p' = [''-map'', ''0:v:0''] \<and> encoding_args p' = [''-c:v:0'', ''copy''] \<and>
         calls p' = [TestCall video_hevc])"
  using copy_directive [OF recognized_examples(3), of "[''video'']" h264_hooks False fresh_pass]
    copy_directive [OF recognized_examples(2), of "[''video'']" h264_hooks False fresh_pass]
    recognized_examples h264_hooks_examples
  by (simp add: fresh_pass_def str_nat_small)




subsection \<open>Probing\<close>



lemma test_valid_mimetype_info [simp]:
  "test_valid_mimetype e (pr\<lparr>probe_info := i\<rparr>) p = test_valid_mimetype e pr p"
  by (simp add: test_valid_mimetype_def Let_def split: option.splits)








lemma not_error_braces: "\<not> substring ''error'' ''{}''"
  by simp












subsection \<open>The metadata search\<close>

lemma map_of_map_set:
  "map_of (map (\<lambda>kv. if fst kv = k then (k, v) else kv) d) x =
     (if x = k then (if map_of d k = None then None else Some v) else map_of d x)"
  by (induction d) auto

lemma map_of_dict_set: "map_of (dict_set k v d) = (map_of d)(k \<mapsto> v)"
proof (cases "k \<in> fst ` set d")
  case True
  then have "map_of d k \<noteq> None" by (simp add: map_of_eq_None_iff)
  with True show ?thesis by (auto simp: dict_set_def map_of_map_set fun_eq_iff)
next
  case False
  then have "map_of d k = None" by (simp add: map_of_eq_None_iff)
  with False show ?thesis
    by (auto simp: dict_set_def fun_eq_iff map_add_def split: option.splits)
qed

lemma keys_dict_set:
  "map fst (dict_set k v d) = (if k \<in> set (map fst d) then map fst d else map fst d @ [k])"
  by (induction d) (auto simp: dict_set_def)

lemma distinct_dict_set: "distinct_keys d \<Longrightarrow> distinct_keys (dict_set k v d)"
  by (simp add: distinct_keys_def keys_dict_set del: set_map)

lemma set_dict_set: "set (dict_set k v d) \<subseteq> insert (k, v) (set d)"
  by (auto simp: dict_set_def)

lemma distinct_dict_update: "distinct_keys d \<Longrightarrow> distinct_keys (dict_update d other)"
  unfolding dict_update_def
  by (induction other arbitrary: d) (simp_all add: distinct_dict_set)

lemma set_dict_update: "set (dict_update d other) \<subseteq> set d \<union> set other"
  unfolding dict_update_def
proof (induction other arbitrary: d)
  case Nil
  then show ?case by simp
next
  case (Cons kv other)
  have "set (fold (\<lambda>kv acc. dict_set (fst kv) (snd kv) acc) other (dict_set (fst kv) (snd kv) d))
      \<subseteq> set (dict_set (fst kv) (snd kv) d) \<union> set other"
    by (rule Cons.IH)
  with set_dict_set [of "fst kv" "snd kv" d] show ?case by auto
qed

lemma map_of_dict_update:
  "distinct_keys other \<Longrightarrow> map_of (dict_update d other) = map_of d ++ map_of other"
  unfolding dict_update_def
proof (induction other arbitrary: d)
  case Nil
  then show ?case by simp
next
  case (Cons kv other)
  from Cons.prems have d: "distinct_keys other" and nk: "fst kv \<notin> fst ` set other"
    by (auto simp: distinct_keys_def)
  from nk have none: "map_of other (fst kv) = None"
    by (simp add: map_of_eq_None_iff)
  have "map_of (fold (\<lambda>kv acc. dict_set (fst kv) (snd kv) acc) other (dict_set (fst kv) (snd kv) d))
      = (map_of d)(fst kv \<mapsto> snd kv) ++ map_of other"
    by (simp only: Cons.IH [OF d] map_of_dict_set)
  also have "\<dots> = map_of d ++ map_of (kv # other)"
    using none by (cases kv) (auto simp: fun_eq_iff map_add_def split: option.splits)
  finally have "map_of (fold (\<lambda>kv acc. dict_set (fst kv) (snd kv) acc) other
      (dict_set (fst kv) (snd kv) d)) = map_of d ++ map_of (kv # other)" .
  then show ?case by (simp only: fold_simps)
qed

lemma filter_err_Inr:
  "filter_err P xs = Inr ys \<Longrightarrow> ys = filter (\<lambda>x. P x = Inr True) xs"
  by (induction xs arbitrary: ys) (auto split: sum.splits if_splits)

lemma filter_err_Inl:
  "filter_err P xs = Inl e \<Longrightarrow> \<exists>x \<in> set xs. P x = Inl e"
  by (induction xs) (auto split: sum.splits)

lemma filter_err_defined:
  "filter_err P xs = Inr ys \<Longrightarrow> x \<in> set xs \<Longrightarrow> \<exists>b. P x = Inr b"
  by (induction xs arbitrary: ys) (auto split: sum.splits)

lemma filter_err_total:
  "\<forall>x \<in> set xs. \<exists>b. P x = Inr b \<Longrightarrow> \<exists>ys. filter_err P xs = Inr ys"
  by (induction xs) (auto split: sum.splits)

lemma match_kv_Inr:
  "match_kv key val kv = Inr b \<Longrightarrow>
   b = (substring key (lower (fst kv)) \<and> contains val (snd kv))"
  by (auto simp: match_kv_def py_in_def split: if_splits)

lemma match_kv_not_KeyError: "match_kv key val kv \<noteq> Inl KeyError"
  by (simp add: match_kv_def py_in_def)

lemma match_kv_total:
  "testable key d \<Longrightarrow> kv \<in> set d \<Longrightarrow> \<exists>b. match_kv key val kv = Inr b"
  by (auto simp: testable_def match_kv_def py_in_def)

lemma exists_distinct_keys:
  assumes "distinct_keys d"
  shows "(\<exists>kv \<in> set d. Q (fst kv) (snd kv)) = (\<exists>k v. map_of d k = Some v \<and> Q k v)"
proof
  assume "\<exists>kv \<in> set d. Q (fst kv) (snd kv)"
  then obtain k v where "(k, v) \<in> set d" and "Q k v" by auto
  with assms have "map_of d k = Some v" by (simp add: distinct_keys_def)
  with \<open>Q k v\<close> show "\<exists>k v. map_of d k = Some v \<and> Q k v" by blast
next
  assume "\<exists>k v. map_of d k = Some v \<and> Q k v"
  then obtain k v where "map_of d k = Some v" and "Q k v" by blast
  then have "(k, v) \<in> set d" by (simp add: map_of_SomeD)
  with \<open>Q k v\<close> show "\<exists>kv \<in> set d. Q (fst kv) (snd kv)" by force
qed

lemma scan_matches:
  assumes "distinct_keys d" and "filter_err (match_kv key val) d = Inr ms"
  shows "(ms \<noteq> []) = spec_matches key val (map_of d)"
proof -
  from filter_err_Inr [OF assms(2)]
  have "(ms \<noteq> []) = (\<exists>kv \<in> set d. match_kv key val kv = Inr True)"
    by (auto simp: filter_empty_conv)
  also have "\<dots> = (\<exists>kv \<in> set d. substring key (lower (fst kv)) \<and> contains val (snd kv))"
    using filter_err_defined [OF assms(2)] by (metis match_kv_Inr)
  also have "\<dots> = spec_matches key val (map_of d)"
    unfolding spec_matches_def
    by (rule exists_distinct_keys [OF assms(1), of "\<lambda>k v. substring key (lower k) \<and> contains val v"])
  finally show ?thesis .
qed

lemma testable_filter: "testable key d \<Longrightarrow> testable key (filter P d)"
  by (simp add: testable_def)

lemma testable_dict_update:
  "testable key d \<Longrightarrow> testable key other \<Longrightarrow> testable key (dict_update d other)"
  using set_dict_update [of d other] by (auto simp: testable_def)

lemma distinct_keys_filter: "distinct_keys d \<Longrightarrow> distinct_keys (filter P d)"
  by (simp add: distinct_keys_def distinct_map_filter)

lemma fold_update_map:
  "\<forall>kv \<in> set ds. distinct_keys (items_of (snd kv)) \<Longrightarrow>
   map_of (fold (\<lambda>kv acc. dict_update acc (items_of (snd kv))) ds acc) =
     foldl (\<lambda>m kv. m ++ map_of (items_of (snd kv))) (map_of acc) ds"
  by (induction ds arbitrary: acc) (simp_all add: map_of_dict_update)

lemma fold_update_distinct:
  "distinct_keys acc \<Longrightarrow>
   distinct_keys (fold (\<lambda>kv acc. dict_update acc (items_of (snd kv))) ds acc)"
  by (induction ds arbitrary: acc) (simp_all add: distinct_dict_update)

lemma fold_update_testable:
  "testable key acc \<Longrightarrow> \<forall>kv \<in> set ds. testable key (items_of (snd kv)) \<Longrightarrow>
   testable key (fold (\<lambda>kv acc. dict_update acc (items_of (snd kv))) ds acc)"
  by (induction ds arbitrary: acc) (simp_all add: testable_dict_update)

lemma flatten_map: "wf_format fmt \<Longrightarrow> map_of (flatten_format fmt) = spec_flattened fmt"
  by (simp add: wf_format_def flatten_format_def spec_flattened_def Let_def fold_update_map)

lemma flatten_distinct: "wf_format fmt \<Longrightarrow> distinct_keys (flatten_format fmt)"
  by (simp add: wf_format_def flatten_format_def Let_def fold_update_distinct
      distinct_keys_filter)

lemma flatten_testable:
  "testable key fmt \<Longrightarrow> \<forall>kv \<in> set fmt. testable key (items_of (snd kv)) \<Longrightarrow>
   testable key (flatten_format fmt)"
  by (simp add: flatten_format_def Let_def fold_update_testable testable_filter)

lemma tag_map_wf:
  "map_of s ''tags'' = Some v \<Longrightarrow>
   tag_map s = map_of (filter (\<lambda>kv. \<not> is_dict (snd kv)) (items_of v))"
  by (simp add: tag_map_def)

lemma tags_kv_map:
  "\<forall>s \<in> set ss. wf_stream s \<Longrightarrow> tags_kv ss acc = Inr d \<Longrightarrow>
   map_of d = foldl (\<lambda>m s. m ++ tag_map s) (map_of acc) ss"
proof (induction ss arbitrary: acc)
  case Nil
  then show ?case by simp
next
  case (Cons s ss)
  from Cons.prems(2) obtain v where v: "map_of s ''tags'' = Some v" and dv: "is_dict v"
    and rest: "tags_kv ss (dict_update acc (filter (\<lambda>kv. \<not> is_dict (snd kv)) (items_of v))) = Inr d"
    by (auto split: option.splits if_splits)
  from Cons.prems(1) v have "distinct_keys (items_of v)"
    by (simp add: wf_stream_def)
  then have "distinct_keys (filter (\<lambda>kv. \<not> is_dict (snd kv)) (items_of v))"
    by (rule distinct_keys_filter)
  then have "map_of (dict_update acc (filter (\<lambda>kv. \<not> is_dict (snd kv)) (items_of v))) =
      map_of acc ++ tag_map s"
    by (simp add: map_of_dict_update tag_map_wf [OF v])
  with Cons.IH [OF _ rest] Cons.prems(1) show ?case by simp
qed

lemma tags_kv_distinct:
  "tags_kv ss acc = Inr d \<Longrightarrow> distinct_keys acc \<Longrightarrow> distinct_keys d"
  by (induction ss arbitrary: acc)
    (auto split: option.splits if_splits simp: distinct_dict_update)

lemma tags_kv_present:
  "tags_kv ss acc = Inr d \<Longrightarrow> \<forall>s \<in> set ss. map_of s ''tags'' \<noteq> None"
  by (induction ss arbitrary: acc) (auto split: option.splits if_splits)

lemma tags_kv_KeyError:
  "tags_kv ss acc = Inl KeyError \<Longrightarrow> \<exists>s \<in> set ss. map_of s ''tags'' = None"
  by (induction ss arbitrary: acc) (auto split: option.splits if_splits)

lemma tags_kv_missing:
  "\<forall>s \<in> set ss. wf_stream s \<Longrightarrow> \<exists>s \<in> set ss. map_of s ''tags'' = None \<Longrightarrow>
   tags_kv ss acc = Inl KeyError"
  by (induction ss arbitrary: acc) (auto simp: wf_stream_def split: option.splits)

lemma tags_kv_total:
  "\<forall>s \<in> set ss. wf_stream s \<Longrightarrow> \<forall>s \<in> set ss. map_of s ''tags'' \<noteq> None \<Longrightarrow>
   \<exists>d. tags_kv ss acc = Inr d"
  by (induction ss arbitrary: acc) (auto simp: wf_stream_def split: option.splits)

lemma tags_kv_testable:
  "tags_kv ss acc = Inr d \<Longrightarrow> testable key acc \<Longrightarrow>
   \<forall>s \<in> set ss. \<forall>v. map_of s ''tags'' = Some v \<longrightarrow> testable key (items_of v) \<Longrightarrow>
   testable key d"
  by (induction ss arbitrary: acc)
    (auto split: option.splits if_splits simp: testable_dict_update testable_filter)

lemma filter_err_match_not_KeyError:
  "filter_err (match_kv key val) d \<noteq> Inl KeyError"
  using filter_err_Inl [of "match_kv key val" d KeyError] match_kv_not_KeyError by blast

lemma spec_merged_tags_eq:
  "spec_merged_tags ss = foldl (\<lambda>m s. m ++ tag_map s) (map_of []) ss"
  by (simp add: spec_merged_tags_def)

lemma scan_tags_Inr:
  assumes wf: "\<forall>s \<in> set ss. wf_stream s" and run: "scan_tags key val ss = Inr ms"
  shows "(ms \<noteq> []) = spec_tag_scan key val ss"
proof (cases "tags_kv ss []")
  case (Inl e)
  with run have e: "e = KeyError" and ms: "ms = []"
    by (auto simp: scan_tags_def split: error.splits)
  from Inl e have "\<exists>s \<in> set ss. map_of s ''tags'' = None"
    by (simp add: tags_kv_KeyError)
  with ms show ?thesis by (auto simp: spec_tag_scan_def)
next
  case (Inr d)
  with run filter_err_match_not_KeyError [of key val d]
  have f: "filter_err (match_kv key val) d = Inr ms"
    by (auto simp: scan_tags_def split: sum.splits error.splits)
  have dist: "distinct_keys d"
    using tags_kv_distinct [OF Inr] by (simp add: distinct_keys_def)
  have "map_of d = spec_merged_tags ss"
    using tags_kv_map [OF wf Inr] by (simp add: spec_merged_tags_eq)
  with scan_matches [OF dist f] tags_kv_present [OF Inr] show ?thesis
    by (simp add: spec_tag_scan_def)
qed

lemma scan_tags_total:
  assumes wf: "\<forall>s \<in> set ss. wf_stream s"
    and t: "\<forall>s \<in> set ss. \<forall>v. map_of s ''tags'' = Some v \<longrightarrow> testable key (items_of v)"
  shows "\<exists>ms. scan_tags key val ss = Inr ms"
proof (cases "\<exists>s \<in> set ss. map_of s ''tags'' = None")
  case True
  with wf have "tags_kv ss [] = Inl KeyError" by (rule tags_kv_missing)
  then show ?thesis by (simp add: scan_tags_def)
next
  case False
  then have "\<forall>s \<in> set ss. map_of s ''tags'' \<noteq> None" by simp
  with wf obtain d where d: "tags_kv ss [] = Inr d"
    using tags_kv_total by blast
  have "testable key d"
    using tags_kv_testable [OF d _ t] by (simp add: testable_def)
  then have "\<forall>kv \<in> set d. \<exists>b. match_kv key val kv = Inr b"
    using match_kv_total by blast
  then obtain ms where "filter_err (match_kv key val) d = Inr ms"
    using filter_err_total by blast
  with d show ?thesis by (simp add: scan_tags_def)
qed

lemma scan_tags_missing:
  "\<forall>s \<in> set ss. wf_stream s \<Longrightarrow> \<exists>s \<in> set ss. map_of s ''tags'' = None \<Longrightarrow>
   scan_tags key val ss = Inr []"
  by (simp add: scan_tags_def tags_kv_missing)

lemma direct_match_Inr:
  "direct_match key val s = Inr b \<Longrightarrow> b = (\<exists>v. map_of s key = Some v \<and> contains val v)"
  by (auto simp: direct_match_def py_in_def split: option.splits if_splits)

lemma direct_Inr:
  assumes "filter_err (direct_match key val) ss = Inr ms"
  shows "(ms \<noteq> []) = spec_direct key val ss"
proof -
  from filter_err_Inr [OF assms]
  have "(ms \<noteq> []) = (\<exists>s \<in> set ss. direct_match key val s = Inr True)"
    by (auto simp: filter_empty_conv)
  also have "\<dots> = spec_direct key val ss"
    unfolding spec_direct_def
    using filter_err_defined [OF assms] by (metis direct_match_Inr)
  finally show ?thesis .
qed

lemma direct_total:
  "\<forall>s \<in> set ss. \<forall>v. map_of s key = Some v \<longrightarrow> iterable v \<Longrightarrow>
   \<exists>ms. filter_err (direct_match key val) ss = Inr ms"
  by (rule filter_err_total) (auto simp: direct_match_def py_in_def split: option.splits)

lemma format_Inr:
  "wf_format fmt \<Longrightarrow> filter_err (match_kv key val) (flatten_format fmt) = Inr ms \<Longrightarrow>
   (ms \<noteq> []) = spec_matches key val (spec_flattened fmt)"
  using scan_matches [of "flatten_format fmt" key val ms]
  by (simp add: flatten_distinct flatten_map)

lemma format_total:
  "testable key fmt \<Longrightarrow> \<forall>kv \<in> set fmt. testable key (items_of (snd kv)) \<Longrightarrow>
   \<exists>ms. filter_err (match_kv key val) (flatten_format fmt) = Inr ms"
  using flatten_testable [of key fmt] match_kv_total [of key "flatten_format fmt"]
    filter_err_total [of "flatten_format fmt" "match_kv key val"]
  by blast

lemma wf_with_codec_type:
  "\<forall>s \<in> set ss. wf_stream s \<Longrightarrow> \<forall>s \<in> set (with_codec_type t ss). wf_stream s"
  by (simp add: with_codec_type_def)

end
